theory Spec2Isabelle
  imports Main
begin

section \<open>Python values used by \<open>mvn_get.py\<close>\<close>

text \<open>
  The module is Python 2. Its strings are modelled as \<open>string\<close>, a value that may be
  \<open>None\<close> as \<open>string option\<close>. An exception is a value of \<open>error\<close>; a function that can
  raise returns \<open>error + 'a\<close>, with \<open>Inl\<close> for the exception.
\<close>

definition truthy :: "string option \<Rightarrow> bool" where
  \<comment> \<open>Python truth value of a string or \<open>None\<close>: \<open>None\<close> and the empty string are false.\<close>
  "truthy v = (case v of None \<Rightarrow> False | Some s \<Rightarrow> s \<noteq> [])"

definition py_or :: "string option \<Rightarrow> string option \<Rightarrow> string option" where
  \<comment> \<open>\<open>a or b\<close>\<close>
  "py_or a b = (if truthy a then a else b)"

definition py_format_s :: "string option \<Rightarrow> string" where
  \<comment> \<open>\<open>"%s" % v\<close>\<close>
  "py_format_s v = (case v of None \<Rightarrow> ''None'' | Some s \<Rightarrow> s)"

fun str_split :: "char \<Rightarrow> string \<Rightarrow> string list" where
  \<comment> \<open>\<open>s.split(sep)\<close> for a one-character separator: never the empty list.\<close>
  "str_split sep [] = [[]]"
| "str_split sep (c # cs) =
     (if c = sep then [] # str_split sep cs
      else (case str_split sep cs of
              [] \<Rightarrow> [[c]]
            | p # ps \<Rightarrow> (c # p) # ps))"

fun join :: "string \<Rightarrow> string list \<Rightarrow> string" where
  \<comment> \<open>\<open>sep.join(xs)\<close> on strings\<close>
  "join sep [] = []"
| "join sep [x] = x"
| "join sep (x # y # ys) = x @ sep @ join sep (y # ys)"

definition endswith :: "string \<Rightarrow> string \<Rightarrow> bool" where
  \<comment> \<open>\<open>s.endswith(suf)\<close>\<close>
  "endswith s suf = (length suf \<le> length s \<and> drop (length s - length suf) s = suf)"

definition replace :: "char \<Rightarrow> char \<Rightarrow> string \<Rightarrow> string" where
  \<comment> \<open>\<open>s.replace(a, b)\<close> for one-character \<open>a\<close> and \<open>b\<close>\<close>
  "replace a b s = map (\<lambda>c. if c = a then b else c) s"

section \<open>The coordinate model: class \<open>Artifact\<close>\<close>

record Artifact =
  group_id :: string
  artifact_id :: string
  version :: "string option"
  classifier :: "string option"
  extension :: "string option"

datatype error =
    Error string
    \<comment> \<open>class \<open>Error\<close>, raised for a missing destination directory; the argument is the
        message given to the constructor\<close>
  | ArtifactError "Artifact option" string
    \<comment> \<open>class \<open>ArtifactError\<close>: the artifact (or \<open>None\<close>) and the message. The constructor
        passes the message through \<open>str.format\<close>; the fixed messages of the module have no
        brace, hence no replacement field, and are kept as written. The message of
        \<open>Artifact.parse\<close> holds the input and is built by \<open>ArtifactError_init\<close> below.\<close>
  | DownloaderError string string
    \<comment> \<open>class \<open>DownloaderError\<close>: the url and the message (the cause is the transport's)\<close>
  | TypeError
  | AttributeError
  | IndexError
  | KeyError
  | ValueError
  | IOError
  | ReadError
    \<comment> \<open>a response whose \<open>read()\<close> raises (connection lost while the body is read)\<close>
  | ParseError
    \<comment> \<open>\<open>ET.parse\<close> on a body that is not well-formed XML\<close>

definition py_join :: "string \<Rightarrow> string option list \<Rightarrow> error + string" where
  \<comment> \<open>\<open>sep.join(xs)\<close> on a list that may hold \<open>None\<close>: a \<open>None\<close> item raises TypeError.\<close>
  "py_join sep xs = (if None \<in> set xs then Inl TypeError else Inr (join sep (map the xs)))"

text \<open>
  What \<open>str.format\<close> does with a message that has replacement fields is the library's and
  a parameter of the model: it raises (KeyError for \<open>{x}\<close>, ValueError for a lone brace,
  IndexError for \<open>{1}\<close>) or returns the expanded message.
\<close>

type_synonym formatter = "string \<Rightarrow> Artifact option \<Rightarrow> error + string"

definition str_format :: "formatter \<Rightarrow> string \<Rightarrow> Artifact option \<Rightarrow> error + string" where
  \<comment> \<open>\<open>message.format({'artifact': artifact})\<close>: a message without a brace is returned as
      written.\<close>
  "str_format fmt message artifact =
     (if CHR ''{'' \<in> set message \<or> CHR ''}'' \<in> set message
      then fmt message artifact
      else Inr message)"

definition ArtifactError_init :: "formatter \<Rightarrow> Artifact option \<Rightarrow> string \<Rightarrow> error" where
  \<comment> \<open>\<open>ArtifactError.__init__(artifact, message)\<close>: the exception that
      \<open>raise ArtifactError(artifact, message)\<close> ends with, which is the one \<open>format\<close> raises
      when it raises.\<close>
  "ArtifactError_init fmt artifact message =
     (case str_format fmt message artifact of
        Inl e \<Rightarrow> e
      | Inr m \<Rightarrow> ArtifactError artifact m)"

definition Artifact_init ::
  "string option \<Rightarrow> string option \<Rightarrow> string option \<Rightarrow> string option \<Rightarrow> string option
     \<Rightarrow> error + Artifact" where
  \<comment> \<open>\<open>Artifact.__init__(group_id, artifact_id, version, classifier, extension)\<close>\<close>
  "Artifact_init g a v c t =
     (if \<not> truthy g \<or> \<not> truthy a
      then Inl (ArtifactError None ''artifact_id and group_id must be provided'')
      else Inr \<lparr>group_id = the g, artifact_id = the a, version = v, classifier = c,
                extension = t\<rparr>)"

definition is_snapshot :: "Artifact \<Rightarrow> error + bool" where
  \<comment> \<open>\<open>self.version.endswith('SNAPSHOT')\<close>: on \<open>None\<close> the attribute lookup raises.\<close>
  "is_snapshot self =
     (case version self of
        None \<Rightarrow> Inl AttributeError
      | Some v \<Rightarrow> Inr (endswith v ''SNAPSHOT''))"

definition Artifact_path :: "Artifact \<Rightarrow> bool \<Rightarrow> error + string" where
  \<comment> \<open>\<open>Artifact.path(with_version)\<close>: \<open>'/' + None\<close> raises TypeError.\<close>
  "Artifact_path self with_version =
     (let base = replace CHR ''.'' CHR ''/'' (group_id self) @ ''/'' @ artifact_id self in
      if with_version
      then (case version self of
              None \<Rightarrow> Inl TypeError
            | Some v \<Rightarrow> Inr (base @ ''/'' @ v))
      else Inr base)"

definition Artifact_filename :: "Artifact \<Rightarrow> error + string" where
  \<comment> \<open>\<open>Artifact.filename()\<close>\<close>
  "Artifact_filename self =
     (let s = artifact_id self;
          s = (if truthy (classifier self) then s @ ''-'' @ the (classifier self) else s)
      in case extension self of
           None \<Rightarrow> Inl TypeError
         | Some e \<Rightarrow> Inr (s @ ''.'' @ e))"

definition Artifact_str :: "Artifact \<Rightarrow> error + string" where
  \<comment> \<open>\<open>Artifact.__str__()\<close>\<close>
  "Artifact_str self =
     (let a = [Some (group_id self), Some (artifact_id self)];
          a = (if extension self \<noteq> Some ''jar'' \<or> truthy (classifier self)
               then a @ [extension self] else a);
          a = (if truthy (classifier self) then a @ [classifier self] else a);
          a = (if truthy (version self) then a @ [version self] else a)
      in py_join '':'' a)"

definition Artifact_parse :: "formatter \<Rightarrow> string \<Rightarrow> error + Artifact" where
  \<comment> \<open>\<open>Artifact.parse(input)\<close>; \<open>parts[-1]\<close> is \<open>last parts\<close>, read only when there are
      at least three parts.\<close>
  "Artifact_parse fmt input =
     (let parts = str_split CHR '':'' input in
      if length parts < 2
      then Inl (ArtifactError_init fmt None (''invalid Maven coordinates: '' @ input))
      else
        let g = parts ! 0;
            a = parts ! 1;
            v = (if 3 \<le> length parts then Some (last parts) else None);
            t = (if 4 \<le> length parts then Some (parts ! 2) else None);
            c = (if 5 \<le> length parts then Some (parts ! 3) else None)
        in Artifact_init (Some g) (Some a) v c t)"

text \<open>
  The part of \<open>main\<close> that builds the coordinate (the \<open>if p.name: ... else: ...\<close> at the
  head of its \<open>try\<close> block). The parameters come from the host framework; \<open>extension\<close> is
  declared there with the default \<open>'jar'\<close>.
\<close>

record params =
  p_name :: "string option"
  p_group_id :: "string option"
  p_artifact_id :: "string option"
  p_version :: "string option"
  p_classifier :: "string option"
  p_extension :: "string option"

definition main_artifact :: "formatter \<Rightarrow> params \<Rightarrow> error + Artifact" where
  "main_artifact fmt p =
     (if truthy (p_name p)
      then (case Artifact_parse fmt (the (p_name p)) of
              Inl e \<Rightarrow> Inl e
            | Inr artifact \<Rightarrow>
                Inr (artifact
                      \<lparr>version := py_or (version artifact) (p_version p),
                       classifier := py_or (classifier artifact) (p_classifier p),
                       extension := py_or (extension artifact) (p_extension p)\<rparr>))
      else Artifact_init (p_group_id p) (p_artifact_id p) (p_version p) (p_classifier p)
             (p_extension p))"

section \<open>The downloader: class \<open>MavenDownloader\<close>\<close>

record MavenDownloader =
  base :: string
  username :: "string option"
  password :: "string option"
  user_agent :: string

definition MavenDownloader_init ::
  "string \<Rightarrow> string option \<Rightarrow> string option \<Rightarrow> MavenDownloader" where
  \<comment> \<open>\<open>MavenDownloader.__init__\<close>: one trailing slash of the base is dropped.\<close>
  "MavenDownloader_init b u pw =
     \<lparr>base = (if endswith b ''/'' then butlast b else b), username = u, password = pw,
      user_agent = ''Ansible''\<rparr>"

definition uri_for_artifact :: "MavenDownloader \<Rightarrow> Artifact \<Rightarrow> string option \<Rightarrow> error + string" where
  \<comment> \<open>\<open>MavenDownloader._uri_for_artifact(artifact, version=None)\<close>\<close>
  "uri_for_artifact self artifact version0 =
     (case is_snapshot artifact of
        Inl e \<Rightarrow> Inl e
      | Inr snap \<Rightarrow>
          if snap \<and> \<not> truthy version0
          then Inl (ArtifactError (Some artifact) ''Expected unique version for snapshot artifact'')
          else
            let ver = (if \<not> snap then version artifact else version0) in
            (case Artifact_path artifact True of
               Inl e \<Rightarrow> Inl e
             | Inr p \<Rightarrow>
                 let uri = base self @ ''/'' @ p @ ''/'' @ artifact_id artifact @ ''-''
                             @ py_format_s ver;
                     uri = (if truthy (classifier artifact)
                            then uri @ ''-'' @ the (classifier artifact) else uri)
                 in (case extension artifact of
                       None \<Rightarrow> Inl TypeError
                     | Some e \<Rightarrow> Inr (uri @ ''.'' @ e))))"

section \<open>The environment: file system, network and libraries\<close>

text \<open>
  The file system answers the queries of \<open>os.path\<close> and \<open>open\<close> by path string: a path is
  absent, a directory or a regular file with its contents. Opening a directory raises
  IOError; other failures of \<open>open\<close> (permissions, a full disk) are outside the model.
\<close>

datatype node = Dir | File string

type_synonym filesystem = "string \<Rightarrow> node option"

definition path_isdir :: "filesystem \<Rightarrow> string \<Rightarrow> bool" where
  "path_isdir fs p = (fs p = Some Dir)"

definition path_exists :: "filesystem \<Rightarrow> string \<Rightarrow> bool" where
  "path_exists fs p = (fs p \<noteq> None)"

definition path_join :: "string \<Rightarrow> string \<Rightarrow> string" where
  \<comment> \<open>\<open>posixpath.join(a, b)\<close>\<close>
  "path_join a b =
     (if take 1 b = ''/'' then b
      else if a = [] \<or> endswith a ''/'' then a @ b
      else a @ ''/'' @ b)"

definition rstrip :: "char \<Rightarrow> string \<Rightarrow> string" where
  \<comment> \<open>\<open>s.rstrip(c)\<close>\<close>
  "rstrip c s = rev (dropWhile (\<lambda>x. x = c) (rev s))"

definition path_dirname :: "string \<Rightarrow> string" where
  \<comment> \<open>\<open>posixpath.dirname(p)\<close>: the text up to the last slash, without trailing slashes
      unless it consists of slashes only.\<close>
  "path_dirname p =
     (let head = rev (dropWhile (\<lambda>c. c \<noteq> CHR ''/'') (rev p)) in
      if head \<noteq> [] \<and> head \<noteq> replicate (length head) CHR ''/''
      then rstrip CHR ''/'' head else head)"

definition open_rb :: "filesystem \<Rightarrow> string \<Rightarrow> error + string" where
  \<comment> \<open>\<open>open(p, 'rb')\<close> and reading the file to its end\<close>
  "open_rb fs p =
     (case fs p of
        Some (File b) \<Rightarrow> Inr b
      | Some Dir \<Rightarrow> Inl IOError
      | None \<Rightarrow> Inl IOError)"

definition open_w :: "filesystem \<Rightarrow> string \<Rightarrow> error + filesystem" where
  \<comment> \<open>\<open>open(p, 'w')\<close>: the file is created, or truncated when it exists.\<close>
  "open_w fs p =
     (case fs p of
        Some Dir \<Rightarrow> Inl IOError
      | Some (File b) \<Rightarrow> Inr (fs(p \<mapsto> File []))
      | None \<Rightarrow> Inr (fs(p \<mapsto> File [])))"

text \<open>
  A response of \<open>urlopen\<close> carries its body; \<open>None\<close> stands for a body whose \<open>read()\<close>
  raises. Such a response object is always true in a boolean context, and so is the
  \<open>ElementTree\<close> that \<open>ET.parse\<close> returns: the tests \<open>if response:\<close> and \<open>if not xml:\<close> of the
  source always take the same branch and are not repeated in the model.
\<close>

datatype response = Response "string option"

definition response_read :: "response \<Rightarrow> error + string" where
  "response_read r =
     (case r of
        Response None \<Rightarrow> Inl ReadError
      | Response (Some b) \<Rightarrow> Inr b)"

record Request =
  req_url :: string
  req_headers :: "(string \<times> string) list"

datatype xml = Element (tag: string) (elem_text: "string option") (children: "xml list")

text \<open>
  Library functions and the network are parameters of the model: \<open>urlopen\<close> (\<open>None\<close> when it
  raises HTTPError or URLError), the XML parser behind \<open>ET.parse\<close> (\<open>None\<close> when the body is
  not well-formed), \<open>hashlib.md5(...).hexdigest()\<close> and \<open>b64encode\<close>.
\<close>

record env =
  urlopen :: "Request \<Rightarrow> response option"
  ET_fromstring :: "string \<Rightarrow> xml option"
  md5_hexdigest :: "string \<Rightarrow> string"
  b64encode :: "string \<Rightarrow> string"

text \<open>The state a call works on: the file system and the requests issued so far.\<close>

record world =
  files :: filesystem
  requests :: "Request list"

definition ET_parse :: "env \<Rightarrow> response \<Rightarrow> error + xml" where
  \<comment> \<open>\<open>ET.parse(r)\<close>: reads the response and parses it.\<close>
  "ET_parse E r =
     (case response_read r of
        Inl e \<Rightarrow> Inl e
      | Inr b \<Rightarrow>
          (case ET_fromstring E b of
             None \<Rightarrow> Inl ParseError
           | Some x \<Rightarrow> Inr x))"

definition find_children :: "string \<Rightarrow> xml list \<Rightarrow> xml list" where
  \<comment> \<open>one step of an element path: the children with the tag, of each element in turn\<close>
  "find_children t es = concat (map (\<lambda>e. filter (\<lambda>c. tag c = t) (children e)) es)"

definition findall :: "string list \<Rightarrow> xml \<Rightarrow> xml list" where
  \<comment> \<open>\<open>tree.findall('./t1/t2/...')\<close> from the root, in document order; the path is given
      as its list of tags.\<close>
  "findall steps root = foldl (\<lambda>es t. find_children t es) [root] steps"

definition findtext :: "string \<Rightarrow> xml \<Rightarrow> string option" where
  \<comment> \<open>\<open>e.findtext(t)\<close>: \<open>None\<close> without such a child, else the first one's text, the empty
      string when it has none.\<close>
  "findtext t e =
     (case filter (\<lambda>c. tag c = t) (children e) of
        [] \<Rightarrow> None
      | c # cs \<Rightarrow> Some (case elem_text c of None \<Rightarrow> [] | Some s \<Rightarrow> s))"

definition py_last :: "'a list \<Rightarrow> error + 'a" where
  \<comment> \<open>\<open>xs[-1]\<close>\<close>
  "py_last xs = (if xs = [] then Inl IndexError else Inr (last xs))"

section \<open>The downloader's operations\<close>

definition build_request :: "env \<Rightarrow> MavenDownloader \<Rightarrow> string \<Rightarrow> Request" where
  \<comment> \<open>the head of \<open>_request\<close>: the headers and \<open>Request(url, None, headers)\<close>\<close>
  "build_request E self url =
     (let headers = [(''User-Agent'', user_agent self)];
          headers = (if truthy (username self) \<and> truthy (password self)
                     then headers @
                       [(''Authorization'',
                         ''Basic '' @ b64encode E (the (username self) @ '':'' @ the (password self)))]
                     else headers)
      in \<lparr>req_url = url, req_headers = headers\<rparr>)"

definition request ::
  "env \<Rightarrow> MavenDownloader \<Rightarrow> string \<Rightarrow> string \<Rightarrow> (response \<Rightarrow> error + 'a) \<Rightarrow> world
     \<Rightarrow> (error + 'a) \<times> world" where
  \<comment> \<open>\<open>MavenDownloader._request(url, failmsg, f)\<close>\<close>
  "request E self url failmsg f w =
     (let req = build_request E self url;
          w' = w\<lparr>requests := requests w @ [req]\<rparr>
      in case urlopen E req of
           None \<Rightarrow> (Inl (DownloaderError url failmsg), w')
         | Some response \<Rightarrow> (f response, w'))"

definition local_md5 :: "env \<Rightarrow> filesystem \<Rightarrow> string \<Rightarrow> error + string" where
  \<comment> \<open>\<open>MavenDownloader._local_md5(file)\<close>: the digest of the chunks read in turn is the
      digest of the file's contents.\<close>
  "local_md5 E fs file =
     (case open_rb fs file of
        Inl e \<Rightarrow> Inl e
      | Inr b \<Rightarrow> Inr (md5_hexdigest E b))"

definition is_same_md5 ::
  "env \<Rightarrow> MavenDownloader \<Rightarrow> string \<Rightarrow> string \<Rightarrow> world \<Rightarrow> (error + bool) \<times> world" where
  \<comment> \<open>\<open>MavenDownloader._is_same_md5(file, remote_md5)\<close>\<close>
  "is_same_md5 E self file remote_md5 w =
     (if \<not> path_exists (files w) file then (Inr False, w)
      else
        (case local_md5 E (files w) file of
           Inl e \<Rightarrow> (Inl e, w)
         | Inr local \<Rightarrow>
             (case request E self remote_md5 ''Failed to download MD5'' response_read w of
                (Inl e, w') \<Rightarrow> (Inl e, w')
              | (Inr remote, w') \<Rightarrow> (Inr (local = remote), w'))))"

definition find_latest_version_available ::
  "env \<Rightarrow> MavenDownloader \<Rightarrow> Artifact \<Rightarrow> world \<Rightarrow> (error + string option) \<times> world" where
  \<comment> \<open>\<open>MavenDownloader._find_latest_version_available(artifact)\<close>: the text of the last
      \<open>version\<close> element, \<open>None\<close> when that element has no text.\<close>
  "find_latest_version_available E self artifact w =
     (case Artifact_path artifact False of
        Inl e \<Rightarrow> (Inl e, w)
      | Inr p \<Rightarrow>
          (case request E self (base self @ ''/'' @ p @ ''/maven-metadata.xml'')
                  ''Failed to download maven-metadata.xml'' (ET_parse E) w of
             (Inl e, w') \<Rightarrow> (Inl e, w')
           | (Inr doc, w') \<Rightarrow>
               (case py_last (findall [''versioning'', ''versions'', ''version''] doc) of
                  Inl e \<Rightarrow> (Inl e, w')
                | Inr el \<Rightarrow> (Inr (elem_text el), w'))))"

definition find_matching_artifact ::
  "MavenDownloader \<Rightarrow> xml list \<Rightarrow> Artifact \<Rightarrow> error + string" where
  \<comment> \<open>\<open>MavenDownloader._find_matching_artifact(elems, artifact)\<close>\<close>
  "find_matching_artifact self elems artifact =
     (let filtered = filter (\<lambda>e. findtext ''extension'' e = extension artifact) elems;
          filtered = (if truthy (classifier artifact)
                      then filter (\<lambda>e. findtext ''classifier'' e = classifier artifact) filtered
                      else filtered)
      in if length filtered = 0
         then Inl (ArtifactError (Some artifact) ''Artifact %(artifact)s not found'')
         else
           let elem = filtered ! 0;
               version0 = findtext ''value'' elem
           in uri_for_artifact self artifact version0)"

definition find_uri_for_artifact ::
  "env \<Rightarrow> MavenDownloader \<Rightarrow> Artifact \<Rightarrow> world \<Rightarrow> (error + string) \<times> world" where
  \<comment> \<open>\<open>MavenDownloader.find_uri_for_artifact(artifact)\<close>\<close>
  "find_uri_for_artifact E self artifact w =
     (case is_snapshot artifact of
        Inl e \<Rightarrow> (Inl e, w)
      | Inr snap \<Rightarrow>
          if snap
          then
            (case Artifact_path artifact True of
               Inl e \<Rightarrow> (Inl e, w)
             | Inr p \<Rightarrow>
                 (case request E self (base self @ ''/'' @ p @ ''/maven-metadata.xml'')
                         ''Failed to download maven-metadata.xml'' (ET_parse E) w of
                    (Inl e, w') \<Rightarrow> (Inl e, w')
                  | (Inr doc, w') \<Rightarrow>
                      (find_matching_artifact self
                         (findall [''versioning'', ''snapshotVersions'', ''snapshotVersion''] doc)
                         artifact,
                       w')))
          else (uri_for_artifact self artifact None, w))"

text \<open>
  The result \<open>download\<close> returns: \<open>changed\<close>, the url, the destination path, the
  coordinate's string and the coordinate's fields.
\<close>

record info =
  changed :: bool
  info_url :: string
  info_path :: string
  info_name :: string
  info_artifact :: Artifact

definition download_dest :: "filesystem \<Rightarrow> Artifact \<Rightarrow> string \<Rightarrow> error + string" where
  \<comment> \<open>the first statement of \<open>download\<close>: the destination file\<close>
  "download_dest fs artifact dest =
     (if path_isdir fs dest
      then (case Artifact_filename artifact of
              Inl e \<Rightarrow> Inl e
            | Inr fn \<Rightarrow> Inr (path_join dest fn))
      else if \<not> path_isdir fs (path_dirname dest)
      then Inl (Error (''Destination directory '' @ dest @ '' does not exist''))
      else Inr dest)"

definition download_version ::
  "env \<Rightarrow> MavenDownloader \<Rightarrow> Artifact \<Rightarrow> world \<Rightarrow> (error + Artifact) \<times> world" where
  \<comment> \<open>the second statement of \<open>download\<close>: a coordinate without a version gets the latest\<close>
  "download_version E self artifact w =
     (if \<not> truthy (version artifact)
      then (case find_latest_version_available E self artifact w of
              (Inl e, w') \<Rightarrow> (Inl e, w')
            | (Inr v, w') \<Rightarrow> (Inr (artifact\<lparr>version := v\<rparr>), w'))
      else (Inr artifact, w))"

definition download_transfer ::
  "env \<Rightarrow> MavenDownloader \<Rightarrow> (bool \<Rightarrow> info) \<Rightarrow> string \<Rightarrow> string \<Rightarrow> string \<Rightarrow> bool \<Rightarrow> world
     \<Rightarrow> (error + info) \<times> world" where
  \<comment> \<open>the rest of \<open>download\<close>, from \<open>if not self._is_same_md5(...)\<close>; \<open>result ch\<close> is
      \<open>dict(changed=ch, **info)\<close>.\<close>
  "download_transfer E self result dest url name check_mode w =
     (case is_same_md5 E self dest (url @ ''.md5'') w of
        (Inl e, w1) \<Rightarrow> (Inl e, w1)
      | (Inr same, w1) \<Rightarrow>
          if \<not> same
          then
            (case request E self url (''Failed to download artifact '' @ name) Inr w1 of
               (Inl e, w2) \<Rightarrow> (Inl e, w2)
             | (Inr response, w2) \<Rightarrow>
                 (case open_w (files w2) dest of
                    Inl e \<Rightarrow> (Inl e, w2)
                  | Inr fs \<Rightarrow>
                      (case response_read response of
                         Inl e \<Rightarrow> (Inl e, w2\<lparr>files := fs\<rparr>)
                       | Inr data \<Rightarrow>
                           if check_mode
                           then (Inr (result True), w2\<lparr>files := fs\<rparr>)
                           else (Inr (result True), w2\<lparr>files := fs(dest \<mapsto> File data)\<rparr>))))
          else (Inr (result False), w1))"

definition download ::
  "env \<Rightarrow> MavenDownloader \<Rightarrow> Artifact \<Rightarrow> string \<Rightarrow> bool \<Rightarrow> world \<Rightarrow> (error + info) \<times> world" where
  \<comment> \<open>\<open>MavenDownloader.download(artifact, dest, check_mode)\<close>\<close>
  "download E self artifact0 dest0 check_mode w =
     (case download_dest (files w) artifact0 dest0 of
        Inl e \<Rightarrow> (Inl e, w)
      | Inr dest \<Rightarrow>
          (case download_version E self artifact0 w of
             (Inl e, w1) \<Rightarrow> (Inl e, w1)
           | (Inr artifact, w1) \<Rightarrow>
               (case find_uri_for_artifact E self artifact w1 of
                  (Inl e, w2) \<Rightarrow> (Inl e, w2)
                | (Inr url, w2) \<Rightarrow>
                    (case Artifact_str artifact of
                       Inl e \<Rightarrow> (Inl e, w2)
                     | Inr name \<Rightarrow>
                         download_transfer E self
                           (\<lambda>ch. \<lparr>changed = ch, info_url = url, info_path = dest,
                                  info_name = name, info_artifact = artifact\<rparr>)
                           dest url name check_mode w2))))"

section \<open>Properties of the coordinate model\<close>

lemma str_split_not_Nil: "str_split sep s \<noteq> []"
  by (induction s) (auto split: list.splits)

lemma str_split_no_sep: "x \<in> set (str_split sep s) \<Longrightarrow> sep \<notin> set x"
  by (induction s arbitrary: x) (auto split: list.splits if_splits)

lemma str_split_sep_free: "sep \<notin> set x \<Longrightarrow> str_split sep x = [x]"
  by (induction x) auto

lemma str_split_append_sep:
  "sep \<notin> set x \<Longrightarrow> str_split sep (x @ sep # r) = x # str_split sep r"
  by (induction x) (auto split: list.splits)

subsection \<open>Parsing by segment count\<close>

text \<open>
  The closed examples below instantiate the library's part of \<open>str.format\<close> with a function
  that always raises KeyError. Their inputs have no brace, so it is never consulted.
\<close>

text \<open>
  An input of fewer than two segments that has a brace reaches \<open>str.format\<close> with the
  input inside the message: where the library raises, so does \<open>Artifact.parse\<close>, and the
  exception is not a coordinate error. For \<open>{x}\<close> the library raises KeyError.
\<close>

lemma Artifact_parse_format_raises:
  assumes "fmt ''invalid Maven coordinates: {x}'' None = Inl KeyError"
  shows "Artifact_parse fmt ''{x}'' = Inl KeyError"
  using assms
  by (simp add: Artifact_parse_def ArtifactError_init_def str_format_def Let_def)

text \<open>
  Claim C5, as amended. \<open>Artifact.parse\<close> fails with a coordinate error on an input of
  fewer than two colon-segments that has no brace character. When the first two segments
  are non-empty it assigns the fields by the number of segments: two segments give group
  and artifact and no version; three add the version (the last segment); four add the
  extension (segment 2); five add the classifier (segment 3). When the first or the second
  segment is empty, the constructor's guard rejects the coordinate with a coordinate
  error, whatever the number of segments.
\<close>

theorem Artifact_parse_segment_table:
  "(length (str_split CHR '':'' s) < 2 \<and> CHR ''{'' \<notin> set s \<and> CHR ''}'' \<notin> set s \<longrightarrow>
      Artifact_parse fmt s = Inl (ArtifactError None (''invalid Maven coordinates: '' @ s))) \<and>
   (g \<noteq> [] \<and> a \<noteq> [] \<longrightarrow>
      (str_split CHR '':'' s = [g, a] \<longrightarrow>
         Artifact_parse fmt s = Inr \<lparr>group_id = g, artifact_id = a, version = None,
                                 classifier = None, extension = None\<rparr>) \<and>
      (str_split CHR '':'' s = [g, a, v] \<longrightarrow>
         Artifact_parse fmt s = Inr \<lparr>group_id = g, artifact_id = a, version = Some v,
                                 classifier = None, extension = None\<rparr>) \<and>
      (str_split CHR '':'' s = [g, a, t, v] \<longrightarrow>
         Artifact_parse fmt s = Inr \<lparr>group_id = g, artifact_id = a, version = Some v,
                                 classifier = None, extension = Some t\<rparr>) \<and>
      (str_split CHR '':'' s = [g, a, t, c, v] \<longrightarrow>
         Artifact_parse fmt s = Inr \<lparr>group_id = g, artifact_id = a, version = Some v,
                                 classifier = Some c, extension = Some t\<rparr>)) \<and>
   (2 \<le> length (str_split CHR '':'' s) \<and>
      (str_split CHR '':'' s ! 0 = [] \<or> str_split CHR '':'' s ! 1 = []) \<longrightarrow>
      Artifact_parse fmt s = Inl (ArtifactError None ''artifact_id and group_id must be provided''))"
  by (auto simp: Artifact_parse_def Artifact_init_def ArtifactError_init_def str_format_def
        truthy_def Let_def)

theorem Artifact_parse_segment_table_witness:
  "Artifact_parse (\<lambda>m a. Inl KeyError) ''g'' =
     Inl (ArtifactError None ''invalid Maven coordinates: g'') \<and>
   Artifact_parse (\<lambda>m a. Inl KeyError) ''g:a'' =
     Inr \<lparr>group_id = ''g'', artifact_id = ''a'', version = None, classifier = None,
          extension = None\<rparr> \<and>
   Artifact_parse (\<lambda>m a. Inl KeyError) ''g:a:1.0'' =
     Inr \<lparr>group_id = ''g'', artifact_id = ''a'', version = Some ''1.0'', classifier = None,
          extension = None\<rparr> \<and>
   Artifact_parse (\<lambda>m a. Inl KeyError) ''g:a:war:1.0'' =
     Inr \<lparr>group_id = ''g'', artifact_id = ''a'', version = Some ''1.0'', classifier = None,
          extension = Some ''war''\<rparr> \<and>
   Artifact_parse (\<lambda>m a. Inl KeyError) ''g:a:war:sources:1.0'' =
     Inr \<lparr>group_id = ''g'', artifact_id = ''a'', version = Some ''1.0'',
          classifier = Some ''sources'', extension = Some ''war''\<rparr> \<and>
   Artifact_parse (\<lambda>m a. Inl KeyError) '':a:1.0'' =
     Inl (ArtifactError None ''artifact_id and group_id must be provided'')"
proof -
  have "Artifact_parse (\<lambda>m a. Inl KeyError) ''g'' =
     Inl (ArtifactError None ''invalid Maven coordinates: g'')"
    using Artifact_parse_segment_table [where s = "''g''"] by simp
  moreover have "Artifact_parse (\<lambda>m a. Inl KeyError) ''g:a'' =
     Inr \<lparr>group_id = ''g'', artifact_id = ''a'', version = None, classifier = None,
          extension = None\<rparr>"
    using Artifact_parse_segment_table [where s = "''g:a''" and g = "''g''" and a = "''a''"]
    by simp
  moreover have "Artifact_parse (\<lambda>m a. Inl KeyError) ''g:a:1.0'' =
     Inr \<lparr>group_id = ''g'', artifact_id = ''a'', version = Some ''1.0'', classifier = None,
          extension = None\<rparr>"
    using Artifact_parse_segment_table
      [where s = "''g:a:1.0''" and g = "''g''" and a = "''a''" and v = "''1.0''"]
    by simp
  moreover have "Artifact_parse (\<lambda>m a. Inl KeyError) ''g:a:war:1.0'' =
     Inr \<lparr>group_id = ''g'', artifact_id = ''a'', version = Some ''1.0'', classifier = None,
          extension = Some ''war''\<rparr>"
    using Artifact_parse_segment_table
      [where s = "''g:a:war:1.0''" and g = "''g''" and a = "''a''" and v = "''1.0''"
         and t = "''war''"]
    by simp
  moreover have "Artifact_parse (\<lambda>m a. Inl KeyError) ''g:a:war:sources:1.0'' =
     Inr \<lparr>group_id = ''g'', artifact_id = ''a'', version = Some ''1.0'',
          classifier = Some ''sources'', extension = Some ''war''\<rparr>"
    using Artifact_parse_segment_table
      [where s = "''g:a:war:sources:1.0''" and g = "''g''" and a = "''a''" and v = "''1.0''"
         and t = "''war''" and c = "''sources''"]
    by simp
  moreover have "Artifact_parse (\<lambda>m a. Inl KeyError) '':a:1.0'' =
     Inl (ArtifactError None ''artifact_id and group_id must be provided'')"
    using Artifact_parse_segment_table [where s = "'':a:1.0''"] by simp
  ultimately show ?thesis by blast
qed

text \<open>
  The claim as written fails on a two-segment string whose artifact segment is empty: the
  constructor raises, and no coordinate with group \<open>g\<close> and an empty artifact is produced.
\<close>

theorem Artifact_parse_empty_artifact_rejected:
  "Artifact_parse (\<lambda>m a. Inl KeyError) ''g:'' =
     Inl (ArtifactError None ''artifact_id and group_id must be provided'')"
  by (simp add: Artifact_parse_def Artifact_init_def truthy_def Let_def)

subsection \<open>Six or more segments\<close>

text \<open>
  Claim C10, as amended. A coordinate string with six or more colon-segments whose first
  two segments are non-empty is accepted: group, artifact, extension and classifier are
  segments 0 to 3, the version is the last segment, and the segments between the fourth
  and the last have no effect on the result.
\<close>

theorem Artifact_parse_six_or_more:
  assumes "str_split CHR '':'' s = g # a # t # c # mid @ [v]" and "mid \<noteq> []"
      and "g \<noteq> []" and "a \<noteq> []"
  shows "Artifact_parse fmt s = Inr \<lparr>group_id = g, artifact_id = a, version = Some v,
                                 classifier = Some c, extension = Some t\<rparr>"
  using assms by (simp add: Artifact_parse_def Artifact_init_def truthy_def Let_def)

theorem Artifact_parse_six_or_more_witness:
  "Artifact_parse (\<lambda>m a. Inl KeyError) ''g:a:war:sources:x:y:1.0'' =
     Inr \<lparr>group_id = ''g'', artifact_id = ''a'', version = Some ''1.0'',
          classifier = Some ''sources'', extension = Some ''war''\<rparr>"
  using Artifact_parse_six_or_more
    [where s = "''g:a:war:sources:x:y:1.0''" and g = "''g''" and a = "''a''"
       and t = "''war''" and c = "''sources''" and mid = "[''x'', ''y'']" and v = "''1.0''"]
  by simp

text \<open>
  The claim as written fails on a six-segment string whose group segment is empty: it is
  rejected.
\<close>

theorem Artifact_parse_six_segments_rejected:
  "Artifact_parse (\<lambda>m a. Inl KeyError) '':a:b:c:d:e'' =
     Inl (ArtifactError None ''artifact_id and group_id must be provided'')"
  by (simp add: Artifact_parse_def Artifact_init_def truthy_def Let_def)

subsection \<open>Parsing and serialising\<close>

lemma Artifact_parse_fields:
  assumes "Artifact_parse fmt s = Inr a"
  shows "group_id a \<noteq> [] \<and> artifact_id a \<noteq> [] \<and>
         CHR '':'' \<notin> set (group_id a) \<and> CHR '':'' \<notin> set (artifact_id a) \<and>
         (\<forall>v. version a = Some v \<longrightarrow> CHR '':'' \<notin> set v)"
proof -
  let ?parts = "str_split CHR '':'' s"
  have len: "2 \<le> length ?parts"
    using assms by (auto simp: Artifact_parse_def Let_def split: if_splits)
  have a: "a = \<lparr>group_id = ?parts ! 0, artifact_id = ?parts ! 1,
                  version = (if 3 \<le> length ?parts then Some (last ?parts) else None),
                  classifier = (if 5 \<le> length ?parts then Some (?parts ! 3) else None),
                  extension = (if 4 \<le> length ?parts then Some (?parts ! 2) else None)\<rparr>"
    and ne: "?parts ! 0 \<noteq> []" "?parts ! 1 \<noteq> []"
    using assms len
    by (auto simp: Artifact_parse_def Artifact_init_def truthy_def Let_def split: if_splits)
  have "?parts ! 0 \<in> set ?parts" "?parts ! 1 \<in> set ?parts" "last ?parts \<in> set ?parts"
    using len by (auto simp: str_split_not_Nil)
  then have "CHR '':'' \<notin> set (?parts ! 0)" "CHR '':'' \<notin> set (?parts ! 1)"
    "CHR '':'' \<notin> set (last ?parts)"
    by (auto dest: str_split_no_sep)
  then show ?thesis using a ne by (auto split: if_splits)
qed

lemma Artifact_parse_two:
  assumes "g \<noteq> []" "a \<noteq> []" "CHR '':'' \<notin> set g" "CHR '':'' \<notin> set a"
  shows "Artifact_parse fmt (g @ '':'' @ a) =
           Inr \<lparr>group_id = g, artifact_id = a, version = None, classifier = None,
                extension = None\<rparr>"
  using assms
  by (simp add: Artifact_parse_def Artifact_init_def truthy_def Let_def
        str_split_append_sep str_split_sep_free)

lemma Artifact_parse_three:
  assumes "g \<noteq> []" "a \<noteq> []" "CHR '':'' \<notin> set g" "CHR '':'' \<notin> set a" "CHR '':'' \<notin> set v"
  shows "Artifact_parse fmt (g @ '':'' @ a @ '':'' @ v) =
           Inr \<lparr>group_id = g, artifact_id = a, version = Some v, classifier = None,
                extension = None\<rparr>"
  using assms
  by (simp add: Artifact_parse_def Artifact_init_def truthy_def Let_def
        str_split_append_sep str_split_sep_free)

text \<open>
  Claim C3, as amended. Let the module be given a coordinate string as \<open>name\<close> and no other
  coordinate parameter, so that \<open>main\<close> parses the string and fills in the declared default
  extension \<open>jar\<close>. If this yields a coordinate whose extension is \<open>jar\<close> and which has no
  classifier, then serialising it gives the canonical string \<open>group:artifact\<close>, followed by
  \<open>:version\<close> when there is a version, and building the coordinate from that string again
  gives the same coordinate (hence the same canonical string).
\<close>

theorem parse_str_round_trip:
  assumes p: "p_name p = Some s" "p_group_id p = None" "p_version p = None"
             "p_classifier p = None" "p_extension p = Some ''jar''"
      and a: "main_artifact fmt p = Inr a"
      and jar: "extension a = Some ''jar''"
      and nocl: "\<not> truthy (classifier a)"
  shows "\<exists>c. Artifact_str a = Inr c \<and>
             c = group_id a @ '':'' @ artifact_id a @
                   (if truthy (version a) then '':'' @ the (version a) else []) \<and>
             main_artifact fmt (p\<lparr>p_name := Some c\<rparr>) = Inr a"
proof -
  from a p obtain a0 where a0: "Artifact_parse fmt s = Inr a0"
    and a_def: "a = a0\<lparr>version := py_or (version a0) None,
                       classifier := py_or (classifier a0) None,
                       extension := py_or (extension a0) (Some ''jar'')\<rparr>"
    by (auto simp: main_artifact_def Artifact_init_def truthy_def split: if_splits sum.splits)
  note f = Artifact_parse_fields[OF a0]
  have cl: "classifier a = None"
    using nocl a_def by (auto simp: py_or_def split: if_splits)
  define c where "c = group_id a @ '':'' @ artifact_id a @
                   (if truthy (version a) then '':'' @ the (version a) else [])"
  have str: "Artifact_str a = Inr c"
    using jar cl by (auto simp: Artifact_str_def py_join_def c_def truthy_def Let_def)
  have ga: "group_id a = group_id a0" "artifact_id a = artifact_id a0"
    using a_def by simp_all
  have cne: "c \<noteq> []" using f ga by (simp add: c_def)
  have "main_artifact fmt (p\<lparr>p_name := Some c\<rparr>) = Inr a"
  proof (cases "truthy (version a)")
    case True
    then obtain v where v: "version a = Some v" "v \<noteq> []"
      by (auto simp: truthy_def split: option.splits)
    then have v0: "version a0 = Some v"
      using a_def by (auto simp: py_or_def split: if_splits)
    then have vc: "CHR '':'' \<notin> set v" using f by auto
    have "Artifact_parse fmt c = Inr \<lparr>group_id = group_id a, artifact_id = artifact_id a,
             version = Some v, classifier = None, extension = None\<rparr>"
      using Artifact_parse_three[of "group_id a" "artifact_id a" v] f ga vc v True
      by (simp add: c_def)
    then show ?thesis
      using cne p v jar cl
      by (simp add: main_artifact_def truthy_def py_or_def)
  next
    case False
    then have vn: "version a = None"
      using a_def by (auto simp: py_or_def split: if_splits)
    have "Artifact_parse fmt c = Inr \<lparr>group_id = group_id a, artifact_id = artifact_id a,
             version = None, classifier = None, extension = None\<rparr>"
      using Artifact_parse_two[of "group_id a" "artifact_id a"] f ga False
      by (simp add: c_def)
    then show ?thesis
      using cne p vn jar cl
      by (simp add: main_artifact_def truthy_def py_or_def)
  qed
  with str show ?thesis unfolding c_def by blast
qed

theorem parse_str_round_trip_witness:
  "main_artifact (\<lambda>m a. Inl KeyError)
     \<lparr>p_name = Some ''g:a:jar:1.0'', p_group_id = None, p_artifact_id = None,
                   p_version = None, p_classifier = None, p_extension = Some ''jar''\<rparr> =
     Inr \<lparr>group_id = ''g'', artifact_id = ''a'', version = Some ''1.0'', classifier = None,
          extension = Some ''jar''\<rparr> \<and>
   Artifact_str \<lparr>group_id = ''g'', artifact_id = ''a'', version = Some ''1.0'',
                 classifier = None, extension = Some ''jar''\<rparr> = Inr ''g:a:1.0'' \<and>
   main_artifact (\<lambda>m a. Inl KeyError)
     \<lparr>p_name = Some ''g:a:1.0'', p_group_id = None, p_artifact_id = None,
                   p_version = None, p_classifier = None, p_extension = Some ''jar''\<rparr> =
     Inr \<lparr>group_id = ''g'', artifact_id = ''a'', version = Some ''1.0'', classifier = None,
          extension = Some ''jar''\<rparr>"
proof -
  let ?p = "\<lparr>p_name = Some ''g:a:jar:1.0'', p_group_id = None, p_artifact_id = None,
             p_version = None, p_classifier = None, p_extension = Some ''jar''\<rparr>"
  let ?a = "\<lparr>group_id = ''g'', artifact_id = ''a'', version = Some ''1.0'',
             classifier = None, extension = Some ''jar''\<rparr>"
  have m: "main_artifact (\<lambda>m a. Inl KeyError) ?p = Inr ?a"
    by (simp add: main_artifact_def Artifact_parse_def Artifact_init_def truthy_def py_or_def
          Let_def)
  have "\<exists>c. Artifact_str ?a = Inr c \<and>
             c = group_id ?a @ '':'' @ artifact_id ?a @
                   (if truthy (version ?a) then '':'' @ the (version ?a) else []) \<and>
             main_artifact (\<lambda>m a. Inl KeyError) (?p\<lparr>p_name := Some c\<rparr>) =
               Inr ?a"
    by (rule parse_str_round_trip [where s = "''g:a:jar:1.0''", OF _ _ _ _ _ m])
       (simp_all add: truthy_def)
  then show ?thesis using m by (simp add: truthy_def)
qed

text \<open>
  The claim as written fails: \<open>Artifact.parse\<close> alone leaves the extension \<open>None\<close> when the
  string has fewer than four segments, and \<open>__str__\<close> then appends \<open>None\<close> to the list it
  joins, which raises TypeError. A string whose group segment is empty yields no
  coordinate at all.
\<close>

theorem parse_then_str_raises:
  "Artifact_parse (\<lambda>m a. Inl KeyError) ''g:a'' =
     Inr \<lparr>group_id = ''g'', artifact_id = ''a'', version = None, classifier = None,
          extension = None\<rparr> \<and>
   Artifact_str \<lparr>group_id = ''g'', artifact_id = ''a'', version = None, classifier = None,
                 extension = None\<rparr> = Inl TypeError \<and>
   Artifact_parse (\<lambda>m a. Inl KeyError) '':a'' =
     Inl (ArtifactError None ''artifact_id and group_id must be provided'')"
  by (simp add: Artifact_parse_def Artifact_init_def Artifact_str_def py_join_def truthy_def
        Let_def)

section \<open>Properties of the URI builder\<close>

text \<open>
  Claim C7. For a coordinate with a version \<open>v\<close> and an extension \<open>e\<close>, the URI built from
  it and a resolved version \<open>r\<close> is
  \<open>{base}/{group with dots as slashes}/{artifact}/{v}/{artifact}-{token}[-{classifier}].{e}\<close>,
  where the token is \<open>r\<close> when \<open>v\<close> ends with \<open>SNAPSHOT\<close> and \<open>v\<close> itself otherwise; for a
  snapshot coordinate with no resolved version (\<open>None\<close> or empty) the builder raises an
  artifact error.
\<close>

theorem uri_for_artifact_format:
  assumes "version a = Some v" and "extension a = Some e"
  shows "uri_for_artifact dw a r =
     (if endswith v ''SNAPSHOT'' \<and> \<not> truthy r
      then Inl (ArtifactError (Some a) ''Expected unique version for snapshot artifact'')
      else Inr (base dw @ ''/'' @ replace CHR ''.'' CHR ''/'' (group_id a) @ ''/'' @ artifact_id a
                @ ''/'' @ v @ ''/'' @ artifact_id a @ ''-''
                @ (if endswith v ''SNAPSHOT'' then the r else v)
                @ (if truthy (classifier a) then ''-'' @ the (classifier a) else [])
                @ ''.'' @ e))"
  using assms
  by (auto simp: uri_for_artifact_def is_snapshot_def Artifact_path_def py_format_s_def
        truthy_def Let_def split: option.splits)

theorem uri_for_artifact_format_witness:
  "uri_for_artifact (MavenDownloader_init ''http://repo1.maven.org/maven2'' None (Some []))
     \<lparr>group_id = ''org.apache.maven'', artifact_id = ''maven'', version = Some ''3.2.1'',
      classifier = None, extension = Some ''jar''\<rparr> None =
     Inr ''http://repo1.maven.org/maven2/org/apache/maven/maven/3.2.1/maven-3.2.1.jar'' \<and>
   uri_for_artifact (MavenDownloader_init ''https://maven.example.org/snapshots/'' None None)
     \<lparr>group_id = ''org.apache.maven'', artifact_id = ''maven'',
      version = Some ''3.2.2-SNAPSHOT'', classifier = Some ''sources'',
      extension = Some ''jar''\<rparr> (Some ''3.2.2-20230101.120000-1'') =
     Inr (''https://maven.example.org/snapshots/org/apache/maven/maven/3.2.2-SNAPSHOT/''
          @ ''maven-3.2.2-20230101.120000-1-sources.jar'') \<and>
   uri_for_artifact (MavenDownloader_init ''https://maven.example.org/snapshots/'' None None)
     \<lparr>group_id = ''org.apache.maven'', artifact_id = ''maven'',
      version = Some ''3.2.2-SNAPSHOT'', classifier = None, extension = Some ''jar''\<rparr> None =
     Inl (ArtifactError
            (Some \<lparr>group_id = ''org.apache.maven'', artifact_id = ''maven'',
                   version = Some ''3.2.2-SNAPSHOT'', classifier = None,
                   extension = Some ''jar''\<rparr>)
            ''Expected unique version for snapshot artifact'')"
proof -
  have 1: "uri_for_artifact
       (MavenDownloader_init ''http://repo1.maven.org/maven2'' None (Some []))
       \<lparr>group_id = ''org.apache.maven'', artifact_id = ''maven'', version = Some ''3.2.1'',
        classifier = None, extension = Some ''jar''\<rparr> None =
     Inr ''http://repo1.maven.org/maven2/org/apache/maven/maven/3.2.1/maven-3.2.1.jar''"
    by (subst uri_for_artifact_format [where v = "''3.2.1''" and e = "''jar''"])
       (simp_all add: MavenDownloader_init_def endswith_def replace_def truthy_def)
  have 2: "uri_for_artifact
       (MavenDownloader_init ''https://maven.example.org/snapshots/'' None None)
       \<lparr>group_id = ''org.apache.maven'', artifact_id = ''maven'',
        version = Some ''3.2.2-SNAPSHOT'', classifier = Some ''sources'',
        extension = Some ''jar''\<rparr> (Some ''3.2.2-20230101.120000-1'') =
     Inr (''https://maven.example.org/snapshots/org/apache/maven/maven/3.2.2-SNAPSHOT/''
          @ ''maven-3.2.2-20230101.120000-1-sources.jar'')"
    by (subst uri_for_artifact_format [where v = "''3.2.2-SNAPSHOT''" and e = "''jar''"])
       (simp_all add: MavenDownloader_init_def endswith_def replace_def truthy_def)
  have 3: "uri_for_artifact
       (MavenDownloader_init ''https://maven.example.org/snapshots/'' None None)
       \<lparr>group_id = ''org.apache.maven'', artifact_id = ''maven'',
        version = Some ''3.2.2-SNAPSHOT'', classifier = None, extension = Some ''jar''\<rparr> None =
     Inl (ArtifactError
            (Some \<lparr>group_id = ''org.apache.maven'', artifact_id = ''maven'',
                   version = Some ''3.2.2-SNAPSHOT'', classifier = None,
                   extension = Some ''jar''\<rparr>)
            ''Expected unique version for snapshot artifact'')"
    by (subst uri_for_artifact_format [where v = "''3.2.2-SNAPSHOT''" and e = "''jar''"])
       (simp_all add: MavenDownloader_init_def endswith_def replace_def truthy_def)
  from 1 2 3 show ?thesis by blast
qed

section \<open>Properties of the metadata resolver\<close>

text \<open>
  Claim C2. On a metadata document that lists no version, latest-version resolution does
  not fail with an artifact-not-found error: indexing the empty result of \<open>findall\<close> with
  \<open>[-1]\<close> raises IndexError.
\<close>

theorem find_latest_version_available_empty_list:
  "find_latest_version_available
     \<lparr>urlopen = (\<lambda>r.
        if req_url r = ''http://repo/g/a/maven-metadata.xml''
        then Some (Response (Some ''<metadata><versioning><versions/></versioning></metadata>''))
        else None),
      ET_fromstring = (\<lambda>s.
        if s = ''<metadata><versioning><versions/></versioning></metadata>''
        then Some (Element ''metadata'' None
                     [Element ''versioning'' None [Element ''versions'' None []]])
        else None),
      md5_hexdigest = (\<lambda>b. b),
      b64encode = (\<lambda>s. s)\<rparr>
     (MavenDownloader_init ''http://repo'' None (Some []))
     \<lparr>group_id = ''g'', artifact_id = ''a'', version = None, classifier = None,
      extension = Some ''jar''\<rparr>
     \<lparr>files = Map.empty, requests = []\<rparr> =
   (Inl IndexError,
    \<lparr>files = Map.empty,
     requests = [\<lparr>req_url = ''http://repo/g/a/maven-metadata.xml'',
                   req_headers = [(''User-Agent'', ''Ansible'')]\<rparr>]\<rparr>)"
  by (simp add: find_latest_version_available_def Artifact_path_def replace_def request_def
        build_request_def MavenDownloader_init_def endswith_def truthy_def ET_parse_def
        response_read_def findall_def find_children_def py_last_def Let_def)

text \<open>
  The part of the claim that holds: when the document lists versions, the result is the
  text of the last \<open>version\<close> element in document order.
\<close>

lemma find_latest_version_available_last:
  assumes "Artifact_path artifact False = Inr p"
      and "urlopen E (build_request E self (base self @ ''/'' @ p @ ''/maven-metadata.xml'')) =
             Some (Response (Some body))"
      and "ET_fromstring E body = Some doc"
      and "findall [''versioning'', ''versions'', ''version''] doc = vs @ [el]"
  shows "fst (find_latest_version_available E self artifact w) = Inr (elem_text el)"
  using assms
  by (simp add: find_latest_version_available_def request_def ET_parse_def response_read_def
        py_last_def Let_def)

lemma filter_first:
  "\<forall>x\<in>set pre. \<not> P x \<Longrightarrow> P e \<Longrightarrow> filter P (pre @ e # post) = e # filter P post"
  by (induction pre) auto

text \<open>
  Claim C6. Call a \<open>snapshotVersion\<close> element surviving when its \<open>extension\<close> child equals
  the coordinate's extension and, if the coordinate has a classifier, its \<open>classifier\<close>
  child equals that classifier. When no element survives, snapshot resolution raises the
  artifact-not-found error; otherwise it resolves to the \<open>value\<close> child of the first
  surviving element in document order: the URI is built with that value as the resolved
  version.
\<close>

theorem find_matching_artifact_first_survivor:
  "let surv = (\<lambda>x. findtext ''extension'' x = extension a \<and>
                    (if truthy (classifier a) then findtext ''classifier'' x = classifier a
                     else True)) in
   ((\<forall>x\<in>set elems. \<not> surv x) \<longrightarrow>
      find_matching_artifact dw elems a =
        Inl (ArtifactError (Some a) ''Artifact %(artifact)s not found'')) \<and>
   (\<forall>pre e post. elems = pre @ e # post \<and> (\<forall>x\<in>set pre. \<not> surv x) \<and> surv e \<longrightarrow>
      find_matching_artifact dw elems a = uri_for_artifact dw a (findtext ''value'' e))"
proof -
  define surv where "surv = (\<lambda>x. findtext ''extension'' x = extension a \<and>
                    (if truthy (classifier a) then findtext ''classifier'' x = classifier a
                     else True))"
  have fm: "find_matching_artifact dw elems a =
          (case filter surv elems of
             [] \<Rightarrow> Inl (ArtifactError (Some a) ''Artifact %(artifact)s not found'')
           | e # es \<Rightarrow> uri_for_artifact dw a (findtext ''value'' e))" for elems
    by (cases "truthy (classifier a)")
       (auto simp: find_matching_artifact_def surv_def Let_def conj_commute
             split: list.splits)
  have 1: "find_matching_artifact dw elems a =
        Inl (ArtifactError (Some a) ''Artifact %(artifact)s not found'')"
    if "\<forall>x\<in>set elems. \<not> surv x"
  proof -
    have "filter surv elems = []" using that by (simp add: filter_empty_conv)
    then show ?thesis by (simp add: fm)
  qed
  have 2: "find_matching_artifact dw elems a = uri_for_artifact dw a (findtext ''value'' e)"
    if "elems = pre @ e # post" "\<forall>x\<in>set pre. \<not> surv x" "surv e" for pre e post
    using that by (simp add: fm filter_first)
  show ?thesis
    unfolding Let_def surv_def[symmetric] using 1 2 by blast
qed

theorem find_matching_artifact_first_survivor_witness:
  "find_matching_artifact (MavenDownloader_init ''http://repo'' None None)
     [Element ''snapshotVersion'' None
        [Element ''extension'' (Some ''pom'') [],
         Element ''value'' (Some ''1.0-20230101.120000-1'') []],
      Element ''snapshotVersion'' None
        [Element ''extension'' (Some ''jar'') [],
         Element ''value'' (Some ''1.0-20230101.120000-1'') []],
      Element ''snapshotVersion'' None
        [Element ''classifier'' (Some ''sources'') [],
         Element ''extension'' (Some ''jar'') [],
         Element ''value'' (Some ''1.0-20230101.120000-2'') []]]
     \<lparr>group_id = ''g'', artifact_id = ''a'', version = Some ''1.0-SNAPSHOT'',
      classifier = None, extension = Some ''jar''\<rparr> =
     Inr ''http://repo/g/a/1.0-SNAPSHOT/a-1.0-20230101.120000-1.jar'' \<and>
   find_matching_artifact (MavenDownloader_init ''http://repo'' None None)
     [Element ''snapshotVersion'' None
        [Element ''extension'' (Some ''pom'') [],
         Element ''value'' (Some ''1.0-20230101.120000-1'') []]]
     \<lparr>group_id = ''g'', artifact_id = ''a'', version = Some ''1.0-SNAPSHOT'',
      classifier = None, extension = Some ''war''\<rparr> =
     Inl (ArtifactError
            (Some \<lparr>group_id = ''g'', artifact_id = ''a'', version = Some ''1.0-SNAPSHOT'',
                   classifier = None, extension = Some ''war''\<rparr>)
            ''Artifact %(artifact)s not found'')"
proof -
  let ?dw = "MavenDownloader_init ''http://repo'' None None"
  let ?pom = "Element ''snapshotVersion'' None
        [Element ''extension'' (Some ''pom'') [],
         Element ''value'' (Some ''1.0-20230101.120000-1'') []]"
  let ?jar = "Element ''snapshotVersion'' None
        [Element ''extension'' (Some ''jar'') [],
         Element ''value'' (Some ''1.0-20230101.120000-1'') []]"
  let ?src = "Element ''snapshotVersion'' None
        [Element ''classifier'' (Some ''sources'') [],
         Element ''extension'' (Some ''jar'') [],
         Element ''value'' (Some ''1.0-20230101.120000-2'') []]"
  let ?a = "\<lparr>group_id = ''g'', artifact_id = ''a'', version = Some ''1.0-SNAPSHOT'',
      classifier = None, extension = Some ''jar''\<rparr>"
  let ?b = "\<lparr>group_id = ''g'', artifact_id = ''a'', version = Some ''1.0-SNAPSHOT'',
      classifier = None, extension = Some ''war''\<rparr>"
  have "find_matching_artifact ?dw [?pom, ?jar, ?src] ?a =
          uri_for_artifact ?dw ?a (findtext ''value'' ?jar)"
    using find_matching_artifact_first_survivor
      [where a = "?a" and elems = "[?pom, ?jar, ?src]" and dw = "?dw"]
    unfolding Let_def
    by (elim conjE allE [where x = "[?pom]"] allE [where x = "?jar"] allE [where x = "[?src]"])
       (simp add: findtext_def truthy_def)
  then have 1: "find_matching_artifact ?dw [?pom, ?jar, ?src] ?a =
          Inr ''http://repo/g/a/1.0-SNAPSHOT/a-1.0-20230101.120000-1.jar''"
    by (simp add: findtext_def uri_for_artifact_def is_snapshot_def endswith_def truthy_def
          Artifact_path_def replace_def py_format_s_def MavenDownloader_init_def Let_def)
  have 2: "find_matching_artifact ?dw [?pom] ?b =
          Inl (ArtifactError (Some ?b) ''Artifact %(artifact)s not found'')"
    using find_matching_artifact_first_survivor
      [where a = "?b" and elems = "[?pom]" and dw = "?dw"]
    unfolding Let_def by (simp add: findtext_def truthy_def)
  from 1 2 show ?thesis by blast
qed

section \<open>Properties of the download engine\<close>

lemma request_files:
  "request E self url msg f w = (r, w') \<Longrightarrow> files w' = files w"
  by (auto simp: request_def Let_def split: option.splits)

lemma find_latest_version_available_files:
  "find_latest_version_available E self a w = (r, w') \<Longrightarrow> files w' = files w"
  by (auto simp: find_latest_version_available_def split: sum.splits prod.splits
        dest: request_files)

lemma download_version_files:
  "download_version E self a w = (r, w') \<Longrightarrow> files w' = files w"
  by (auto simp: download_version_def split: if_splits sum.splits prod.splits
        dest: find_latest_version_available_files)

lemma find_uri_for_artifact_files:
  "find_uri_for_artifact E self a w = (r, w') \<Longrightarrow> files w' = files w"
  by (auto simp: find_uri_for_artifact_def split: if_splits sum.splits prod.splits
        dest: request_files)

text \<open>
  Claim C8. When the destination is not an existing directory and its parent directory
  does not exist, \<open>download\<close> raises the destination error and leaves the state as it
  was: no request has been issued and no file has been touched.
\<close>

theorem download_missing_parent:
  assumes "\<not> path_isdir (files w) dest" and "\<not> path_isdir (files w) (path_dirname dest)"
  shows "download E self artifact dest check_mode w =
           (Inl (Error (''Destination directory '' @ dest @ '' does not exist'')), w)"
  using assms by (simp add: download_def download_dest_def)

theorem download_missing_parent_witness:
  "download
     \<lparr>urlopen = (\<lambda>r. Some (Response (Some ''new''))), ET_fromstring = (\<lambda>s. None),
      md5_hexdigest = (\<lambda>b. b), b64encode = (\<lambda>s. s)\<rparr>
     (MavenDownloader_init ''http://repo'' None (Some []))
     \<lparr>group_id = ''g'', artifact_id = ''a'', version = None, classifier = None,
      extension = Some ''jar''\<rparr>
     ''/missing/a.jar'' False
     \<lparr>files = [''/tmp'' \<mapsto> Dir], requests = []\<rparr> =
   (Inl (Error ''Destination directory /missing/a.jar does not exist''),
    \<lparr>files = [''/tmp'' \<mapsto> Dir], requests = []\<rparr>)"
  by (subst download_missing_parent)
     (simp_all add: path_isdir_def path_dirname_def rstrip_def)

text \<open>
  Claim C9. Suppose the destination file is determined, the version and the URL are
  resolved, the destination file exists, and the checksum sidecar at \<open>{url}.md5\<close> is
  served with a body equal to the MD5 digest of the file's contents. Then \<open>download\<close>
  reports \<open>changed = False\<close>; the only request it adds after the resolution is the one
  for the sidecar, and the file system is the one it started with.
\<close>

theorem download_same_md5:
  assumes "download_dest (files w) artifact0 dest0 = Inr dest"
      and "download_version E self artifact0 w = (Inr artifact, w1)"
      and "find_uri_for_artifact E self artifact w1 = (Inr url, w2)"
      and "Artifact_str artifact = Inr name"
      and "files w dest = Some (File content)"
      and "urlopen E (build_request E self (url @ ''.md5'')) =
             Some (Response (Some (md5_hexdigest E content)))"
  shows "download E self artifact0 dest0 check_mode w =
           (Inr \<lparr>changed = False, info_url = url, info_path = dest, info_name = name,
                 info_artifact = artifact\<rparr>,
            w2\<lparr>requests := requests w2 @ [build_request E self (url @ ''.md5'')]\<rparr>) \<and>
         files w2 = files w"
proof -
  have f: "files w2 = files w"
    using download_version_files [OF assms(2)] find_uri_for_artifact_files [OF assms(3)]
    by simp
  have "is_same_md5 E self dest (url @ ''.md5'') w2 =
          (Inr True, w2\<lparr>requests := requests w2 @ [build_request E self (url @ ''.md5'')]\<rparr>)"
    using assms(5,6) f
    by (simp add: is_same_md5_def path_exists_def local_md5_def open_rb_def request_def
          response_read_def Let_def)
  then show ?thesis
    using assms(1-4) f by (simp add: download_def download_transfer_def)
qed

text \<open>
  Two invocations in a row against the same repository: the first one writes the file,
  the second one finds the checksum equal and reports no change.
\<close>

theorem download_same_md5_witness:
  "download
     \<lparr>urlopen = (\<lambda>r.
        if req_url r = ''http://repo/g/a/1.0/a-1.0.jar'' then Some (Response (Some ''new''))
        else if req_url r = ''http://repo/g/a/1.0/a-1.0.jar.md5''
        then Some (Response (Some ''9e''))
        else None),
      ET_fromstring = (\<lambda>s. None),
      md5_hexdigest = (\<lambda>b. if b = ''new'' then ''9e'' else ''0c''),
      b64encode = (\<lambda>s. s)\<rparr>
     (MavenDownloader_init ''http://repo'' None (Some []))
     \<lparr>group_id = ''g'', artifact_id = ''a'', version = Some ''1.0'', classifier = None,
      extension = Some ''jar''\<rparr>
     ''/tmp'' False
     \<lparr>files = [''/tmp'' \<mapsto> Dir], requests = []\<rparr> =
   (Inr \<lparr>changed = True, info_url = ''http://repo/g/a/1.0/a-1.0.jar'',
         info_path = ''/tmp/a.jar'', info_name = ''g:a:1.0'',
         info_artifact = \<lparr>group_id = ''g'', artifact_id = ''a'', version = Some ''1.0'',
                           classifier = None, extension = Some ''jar''\<rparr>\<rparr>,
    \<lparr>files = [''/tmp'' \<mapsto> Dir, ''/tmp/a.jar'' \<mapsto> File ''new''],
     requests = [\<lparr>req_url = ''http://repo/g/a/1.0/a-1.0.jar'',
                   req_headers = [(''User-Agent'', ''Ansible'')]\<rparr>]\<rparr>) \<and>
   download
     \<lparr>urlopen = (\<lambda>r.
        if req_url r = ''http://repo/g/a/1.0/a-1.0.jar'' then Some (Response (Some ''new''))
        else if req_url r = ''http://repo/g/a/1.0/a-1.0.jar.md5''
        then Some (Response (Some ''9e''))
        else None),
      ET_fromstring = (\<lambda>s. None),
      md5_hexdigest = (\<lambda>b. if b = ''new'' then ''9e'' else ''0c''),
      b64encode = (\<lambda>s. s)\<rparr>
     (MavenDownloader_init ''http://repo'' None (Some []))
     \<lparr>group_id = ''g'', artifact_id = ''a'', version = Some ''1.0'', classifier = None,
      extension = Some ''jar''\<rparr>
     ''/tmp'' False
     \<lparr>files = [''/tmp'' \<mapsto> Dir, ''/tmp/a.jar'' \<mapsto> File ''new''], requests = []\<rparr> =
   (Inr \<lparr>changed = False, info_url = ''http://repo/g/a/1.0/a-1.0.jar'',
         info_path = ''/tmp/a.jar'', info_name = ''g:a:1.0'',
         info_artifact = \<lparr>group_id = ''g'', artifact_id = ''a'', version = Some ''1.0'',
                           classifier = None, extension = Some ''jar''\<rparr>\<rparr>,
    \<lparr>files = [''/tmp'' \<mapsto> Dir, ''/tmp/a.jar'' \<mapsto> File ''new''],
     requests = [\<lparr>req_url = ''http://repo/g/a/1.0/a-1.0.jar.md5'',
                   req_headers = [(''User-Agent'', ''Ansible'')]\<rparr>]\<rparr>)"
proof -
  let ?E = "\<lparr>urlopen = (\<lambda>r.
        if req_url r = ''http://repo/g/a/1.0/a-1.0.jar'' then Some (Response (Some ''new''))
        else if req_url r = ''http://repo/g/a/1.0/a-1.0.jar.md5''
        then Some (Response (Some ''9e''))
        else None),
      ET_fromstring = (\<lambda>s. None),
      md5_hexdigest = (\<lambda>b. if b = ''new'' then ''9e'' else ''0c''),
      b64encode = (\<lambda>s. s)\<rparr>"
  let ?dw = "MavenDownloader_init ''http://repo'' None (Some [])"
  let ?a = "\<lparr>group_id = ''g'', artifact_id = ''a'', version = Some ''1.0'', classifier = None,
      extension = Some ''jar''\<rparr>"
  let ?w0 = "\<lparr>files = [''/tmp'' \<mapsto> Dir], requests = []\<rparr>"
  let ?w1 = "\<lparr>files = [''/tmp'' \<mapsto> Dir, ''/tmp/a.jar'' \<mapsto> File ''new''], requests = []\<rparr>"
  have first: "download ?E ?dw ?a ''/tmp'' False ?w0 =
   (Inr \<lparr>changed = True, info_url = ''http://repo/g/a/1.0/a-1.0.jar'',
         info_path = ''/tmp/a.jar'', info_name = ''g:a:1.0'', info_artifact = ?a\<rparr>,
    \<lparr>files = [''/tmp'' \<mapsto> Dir, ''/tmp/a.jar'' \<mapsto> File ''new''],
     requests = [\<lparr>req_url = ''http://repo/g/a/1.0/a-1.0.jar'',
                   req_headers = [(''User-Agent'', ''Ansible'')]\<rparr>]\<rparr>)"
    by (simp add: download_def download_dest_def download_version_def download_transfer_def
          is_same_md5_def open_w_def request_def build_request_def response_read_def
          find_uri_for_artifact_def uri_for_artifact_def is_snapshot_def Artifact_path_def
          Artifact_str_def Artifact_filename_def py_join_def py_format_s_def path_isdir_def
          path_exists_def path_join_def endswith_def replace_def truthy_def
          MavenDownloader_init_def Let_def)
  have d: "download_dest (files ?w1) ?a ''/tmp'' = Inr ''/tmp/a.jar''"
    by (simp add: download_dest_def path_isdir_def Artifact_filename_def truthy_def
          path_join_def endswith_def)
  have v: "download_version ?E ?dw ?a ?w1 = (Inr ?a, ?w1)"
    by (simp add: download_version_def truthy_def)
  have u: "find_uri_for_artifact ?E ?dw ?a ?w1 = (Inr ''http://repo/g/a/1.0/a-1.0.jar'', ?w1)"
    by (simp add: find_uri_for_artifact_def uri_for_artifact_def is_snapshot_def
          Artifact_path_def py_format_s_def endswith_def replace_def truthy_def
          MavenDownloader_init_def Let_def)
  have s: "Artifact_str ?a = Inr ''g:a:1.0''"
    by (simp add: Artifact_str_def py_join_def truthy_def Let_def)
  have c: "files ?w1 ''/tmp/a.jar'' = Some (File ''new'')"
    by simp
  have m: "urlopen ?E (build_request ?E ?dw (''http://repo/g/a/1.0/a-1.0.jar'' @ ''.md5'')) =
             Some (Response (Some (md5_hexdigest ?E ''new'')))"
    by (simp add: build_request_def Let_def)
  have second: "download ?E ?dw ?a ''/tmp'' False ?w1 =
   (Inr \<lparr>changed = False, info_url = ''http://repo/g/a/1.0/a-1.0.jar'',
         info_path = ''/tmp/a.jar'', info_name = ''g:a:1.0'', info_artifact = ?a\<rparr>,
    \<lparr>files = [''/tmp'' \<mapsto> Dir, ''/tmp/a.jar'' \<mapsto> File ''new''],
     requests = [\<lparr>req_url = ''http://repo/g/a/1.0/a-1.0.jar.md5'',
                   req_headers = [(''User-Agent'', ''Ansible'')]\<rparr>]\<rparr>)"
    using download_same_md5 [OF d v u s c m, of False]
    by (simp add: build_request_def MavenDownloader_init_def truthy_def Let_def)
  from first second show ?thesis by blast
qed

text \<open>
  Claim C1. In check mode the artifact is still requested and its body read, but the
  destination is opened for writing before the mode is looked at: an existing file with
  other contents is left empty.
\<close>

theorem download_check_mode_truncates:
  "download
     \<lparr>urlopen = (\<lambda>r.
        if req_url r = ''http://repo/g/a/1.0/a-1.0.jar'' then Some (Response (Some ''new''))
        else if req_url r = ''http://repo/g/a/1.0/a-1.0.jar.md5''
        then Some (Response (Some ''9e''))
        else None),
      ET_fromstring = (\<lambda>s. None),
      md5_hexdigest = (\<lambda>b. if b = ''new'' then ''9e'' else ''0c''),
      b64encode = (\<lambda>s. s)\<rparr>
     (MavenDownloader_init ''http://repo'' None (Some []))
     \<lparr>group_id = ''g'', artifact_id = ''a'', version = Some ''1.0'', classifier = None,
      extension = Some ''jar''\<rparr>
     ''/tmp/a.jar'' True
     \<lparr>files = [''/tmp'' \<mapsto> Dir, ''/tmp/a.jar'' \<mapsto> File ''old''], requests = []\<rparr> =
   (Inr \<lparr>changed = True, info_url = ''http://repo/g/a/1.0/a-1.0.jar'',
         info_path = ''/tmp/a.jar'', info_name = ''g:a:1.0'',
         info_artifact = \<lparr>group_id = ''g'', artifact_id = ''a'', version = Some ''1.0'',
                           classifier = None, extension = Some ''jar''\<rparr>\<rparr>,
    \<lparr>files = [''/tmp'' \<mapsto> Dir, ''/tmp/a.jar'' \<mapsto> File []],
     requests = [\<lparr>req_url = ''http://repo/g/a/1.0/a-1.0.jar.md5'',
                   req_headers = [(''User-Agent'', ''Ansible'')]\<rparr>,
                 \<lparr>req_url = ''http://repo/g/a/1.0/a-1.0.jar'',
                   req_headers = [(''User-Agent'', ''Ansible'')]\<rparr>]\<rparr>)"
  by (simp add: download_def download_dest_def download_version_def download_transfer_def
        is_same_md5_def local_md5_def open_rb_def open_w_def request_def build_request_def
        response_read_def find_uri_for_artifact_def uri_for_artifact_def is_snapshot_def
        Artifact_path_def Artifact_str_def py_join_def py_format_s_def path_isdir_def
        path_exists_def path_dirname_def rstrip_def endswith_def replace_def truthy_def
        MavenDownloader_init_def Let_def)

text \<open>
  Claim C4. An invocation that aborts while the body of the artifact is read has already
  opened the destination for writing: the previous contents of the file are gone.
\<close>

theorem download_read_error_truncates:
  "download
     \<lparr>urlopen = (\<lambda>r.
        if req_url r = ''http://repo/g/a/1.0/a-1.0.jar'' then Some (Response None)
        else if req_url r = ''http://repo/g/a/1.0/a-1.0.jar.md5''
        then Some (Response (Some ''9e''))
        else None),
      ET_fromstring = (\<lambda>s. None),
      md5_hexdigest = (\<lambda>b. if b = ''new'' then ''9e'' else ''0c''),
      b64encode = (\<lambda>s. s)\<rparr>
     (MavenDownloader_init ''http://repo'' None (Some []))
     \<lparr>group_id = ''g'', artifact_id = ''a'', version = Some ''1.0'', classifier = None,
      extension = Some ''jar''\<rparr>
     ''/tmp/a.jar'' False
     \<lparr>files = [''/tmp'' \<mapsto> Dir, ''/tmp/a.jar'' \<mapsto> File ''old''], requests = []\<rparr> =
   (Inl ReadError,
    \<lparr>files = [''/tmp'' \<mapsto> Dir, ''/tmp/a.jar'' \<mapsto> File []],
     requests = [\<lparr>req_url = ''http://repo/g/a/1.0/a-1.0.jar.md5'',
                   req_headers = [(''User-Agent'', ''Ansible'')]\<rparr>,
                 \<lparr>req_url = ''http://repo/g/a/1.0/a-1.0.jar'',
                   req_headers = [(''User-Agent'', ''Ansible'')]\<rparr>]\<rparr>)"
  by (simp add: download_def download_dest_def download_version_def download_transfer_def
        is_same_md5_def local_md5_def open_rb_def open_w_def request_def build_request_def
        response_read_def find_uri_for_artifact_def uri_for_artifact_def is_snapshot_def
        Artifact_path_def Artifact_str_def py_join_def py_format_s_def path_isdir_def
        path_exists_def path_dirname_def rstrip_def endswith_def replace_def truthy_def
        MavenDownloader_init_def Let_def)

text \<open>
  The error paths that end before the destination is opened leave the file system as it
  was: a failure to determine the destination, to resolve the version or the URL, to
  serialise the coordinate, to compare the checksums, or to open the artifact's URL.
\<close>

lemma is_same_md5_files:
  "is_same_md5 E self file remote w = (r, w') \<Longrightarrow> files w' = files w"
  by (auto simp: is_same_md5_def split: if_splits sum.splits prod.splits dest: request_files)

lemma download_transfer_unreachable_files:
  assumes "urlopen E (build_request E self url) = None"
      and "download_transfer E self result dest url name check_mode w = (r, w')"
  shows "files w' = files w"
  using assms
  by (auto simp: download_transfer_def request_def Let_def
        split: if_splits sum.splits prod.splits dest: is_same_md5_files)

end
